theory Spec2Isabelle
  imports Complex_Main "HOL-Library.AList" "HOL-Library.Char_ord" "HOL-Library.List_Lexorder"
begin

section \<open>Python values used by the cache and retry utilities\<close>

text \<open>
  The utilities of \<^verbatim>\<open>codeguardian/utils\<close> are embedded as HOL functions.
  Python \<^verbatim>\<open>int\<close> is \<open>int\<close>; Python \<^verbatim>\<open>float\<close> (delays, clock readings,
  expiry stamps) is idealised as \<open>real\<close>, so rounding and overflow of IEEE doubles are
  outside the model. Exceptions are values of type \<open>exn\<close>, and a computation that may raise
  returns \<open>exn + 'a\<close> with \<open>Inl\<close> for the raised exception. Logging calls have no effect
  on control flow or on the store and are left out.
\<close>

text \<open>
  \<^verbatim>\<open>GithubException\<close> comes from PyGithub, which builds it from an HTTP response. The
  retry handler reads its \<^verbatim>\<open>status\<close> and looks one key up in its \<^verbatim>\<open>headers\<close>
  dictionary, converting the value with \<^verbatim>\<open>int(...)\<close>; the dictionary is that of the
  response, modelled with the values already converted.
  \<open>PyException c m\<close> stands for any other exception, of class \<open>c\<close> with message \<open>m\<close>.
  \<open>RetryError m cause\<close> carries its message and the \<^verbatim>\<open>__cause__\<close> set by
  \<^verbatim>\<open>raise ... from last_exception\<close>.
\<close>

datatype exn =
    GithubException int "(string \<times> int) list"
  | PyException string string
  | RetryError string "exn option"
  | ValueError string

subsection \<open>Rendering integers: \<^verbatim>\<open>str(n)\<close>\<close>

definition digit_char :: "nat \<Rightarrow> char" where
  "digit_char d = ''0123456789'' ! d"

fun digits :: "nat \<Rightarrow> string" where
  "digits n = (if n < 10 then [digit_char n] else digits (n div 10) @ [digit_char (n mod 10)])"

declare digits.simps [simp del]

definition str_int :: "int \<Rightarrow> string" where
  "str_int i = (if i < 0 then CHR ''-'' # digits (nat (- i)) else digits (nat i))"

section \<open>The retry executor: \<^verbatim>\<open>retry_with_backoff\<close>\<close>

text \<open>The decorator's arguments. \<open>exceptions\<close> is the \<^verbatim>\<open>isinstance\<close> test of the
  \<^verbatim>\<open>except exceptions as e\<close> clause.\<close>

record policy =
  max_retries :: int
  base_delay :: real
  max_delay :: real
  exponential_base :: real
  exceptions :: "exn \<Rightarrow> bool"

text \<open>What one run of the wrapper does, in order: each call of the wrapped function with its
  outcome, and each \<^verbatim>\<open>time.sleep\<close> with its argument.\<close>

datatype 'a event = Call "exn + 'a" | Sleep real

fun calls :: "'a event list \<Rightarrow> (exn + 'a) list" where
  "calls [] = []"
| "calls (Call r # evs) = r # calls evs"
| "calls (Sleep d # evs) = calls evs"

fun sleeps :: "'a event list \<Rightarrow> real list" where
  "sleeps [] = []"
| "sleeps (Call r # evs) = sleeps evs"
| "sleeps (Sleep d # evs) = d # sleeps evs"

text \<open>\<^verbatim>\<open>time.sleep(d)\<close> raises \<^verbatim>\<open>ValueError\<close> for a negative \<open>d\<close>.\<close>

definition py_sleep :: "real \<Rightarrow> exn + unit" where
  "py_sleep d = (if d < 0 then Inl (ValueError ''sleep length must be non-negative'') else Inr ())"

text \<open>\<^verbatim>\<open>isinstance(e, GithubException) and e.status == 403\<close>\<close>

fun is_github_403 :: "exn \<Rightarrow> bool" where
  "is_github_403 (GithubException st hs) = (st = 403)"
| "is_github_403 _ = False"

text \<open>\<^verbatim>\<open>int(e.headers.get("X-RateLimit-Reset", 0))\<close>\<close>

fun reset_time :: "exn \<Rightarrow> int" where
  "reset_time (GithubException st hs) =
     (case map_of hs ''X-RateLimit-Reset'' of None \<Rightarrow> 0 | Some n \<Rightarrow> n)"
| "reset_time _ = 0"

text \<open>\<^verbatim>\<open>f"Max retries ({max_retries}) exceeded for {func.__name__}"\<close>\<close>

definition exceeded_msg :: "policy \<Rightarrow> string \<Rightarrow> string" where
  "exceeded_msg p name = ''Max retries ('' @ str_int (max_retries p) @ '') exceeded for '' @ name"

definition prepend :: "'a event list \<Rightarrow> (exn + 'a) \<times> 'a event list \<Rightarrow> (exn + 'a) \<times> 'a event list" where
  "prepend evs r = (fst r, evs @ snd r)"

text \<open>The nested test of the handler: a \<^verbatim>\<open>GithubException\<close> with status 403 whose
  reset header converts to a non-zero integer.\<close>

definition rate_limited :: "exn \<Rightarrow> bool" where
  "rate_limited e \<longleftrightarrow> is_github_403 e \<and> reset_time e \<noteq> 0"

text \<open>
  The loop \<^verbatim>\<open>for attempt in range(max_retries + 1)\<close> of \<^verbatim>\<open>wrapper\<close>, entered at index
  \<open>attempt\<close> with the current \<^verbatim>\<open>last_exception\<close>. Each iteration calls the wrapped
  function once, so \<open>func k\<close> is the outcome of the call made in iteration \<open>k\<close> of this run and
  \<open>clock k\<close> is what \<^verbatim>\<open>time.time()\<close> returns while that failure is handled. The result is
  what the wrapper returns or raises, with the events of the run. An exception that the
  \<^verbatim>\<open>except\<close> clause does not match leaves the loop at once; the first branch is the
  \<^verbatim>\<open>raise\<close> after the loop.
\<close>

function retry_loop ::
  "policy \<Rightarrow> string \<Rightarrow> (nat \<Rightarrow> exn + 'a) \<Rightarrow> (nat \<Rightarrow> real) \<Rightarrow> nat \<Rightarrow> exn option
    \<Rightarrow> (exn + 'a) \<times> 'a event list" where
  "retry_loop p name func clock attempt last_exception =
    (if max_retries p < int attempt then (Inl (RetryError (exceeded_msg p name) last_exception), [])
     else
       (case func attempt of
          Inr v \<Rightarrow> (Inr v, [Call (Inr v)])
        | Inl e \<Rightarrow>
            if \<not> exceptions p e then (Inl e, [Call (Inl e)])
            else if rate_limited e then
              (let wait_time = max (real_of_int (reset_time e) - clock attempt) 0 in
               case py_sleep wait_time of
                 Inl err \<Rightarrow> (Inl err, [Call (Inl e), Sleep wait_time])
               | Inr u \<Rightarrow>
                   prepend [Call (Inl e), Sleep wait_time]
                     (retry_loop p name func clock (attempt + 1) (Some e)))
            else if int attempt < max_retries p then
              (let delay = min (base_delay p * exponential_base p ^ attempt) (max_delay p) in
               case py_sleep delay of
                 Inl err \<Rightarrow> (Inl err, [Call (Inl e), Sleep delay])
               | Inr u \<Rightarrow>
                   prepend [Call (Inl e), Sleep delay]
                     (retry_loop p name func clock (attempt + 1) (Some e)))
            else (Inl (RetryError (exceeded_msg p name) (Some e)), [Call (Inl e)])))"
  by pat_completeness auto
termination
  by (relation "measure (\<lambda>(p, name, func, clock, attempt, last_exception). nat (max_retries p + 1 - int attempt))") auto

declare retry_loop.simps [simp del]

text \<open>\<^verbatim>\<open>wrapper\<close>: \<^verbatim>\<open>last_exception = None\<close>, then the loop from index 0.\<close>

definition wrapper :: "policy \<Rightarrow> string \<Rightarrow> (nat \<Rightarrow> exn + 'a) \<Rightarrow> (nat \<Rightarrow> real) \<Rightarrow> (exn + 'a) \<times> 'a event list" where
  "wrapper p name func clock = retry_loop p name func clock 0 None"

text \<open>The policies the configuration surface describes: a retry count and delays that are
  not negative.\<close>

definition wf_policy :: "policy \<Rightarrow> bool" where
  "wf_policy p \<longleftrightarrow> 0 \<le> max_retries p \<and> 0 \<le> base_delay p \<and> 0 \<le> max_delay p \<and> 0 \<le> exponential_base p"

text \<open>The call made in iteration \<open>k\<close> raises an exception that the \<^verbatim>\<open>except\<close> clause
  matches.\<close>

definition fails_retryably :: "policy \<Rightarrow> (nat \<Rightarrow> exn + 'a) \<Rightarrow> nat \<Rightarrow> bool" where
  "fails_retryably p func k \<longleftrightarrow> (\<exists>e. func k = Inl e \<and> exceptions p e)"

section \<open>The cache store: \<^verbatim>\<open>Cache\<close>\<close>

subsection \<open>JSON documents and the cache directory\<close>

text \<open>
  A payload is a JSON document; \<open>JNull\<close> is Python's \<^verbatim>\<open>None\<close>. The payloads considered are
  those that \<^verbatim>\<open>json.load\<close> gives back as \<^verbatim>\<open>json.dump\<close> received them.
\<close>

datatype json =
    JNull
  | JBool bool
  | JNum real
  | JStr string
  | JList "json list"
  | JObject "(string \<times> json) list"

text \<open>
  A file of the cache directory: its text as \<^verbatim>\<open>json.load\<close> sees it (\<open>None\<close> when the
  text is not valid JSON) and its modification time. The directory is the list of its entries
  by file name, in the order the directory is enumerated. \<open>denied\<close> says for which
  operations on which names the operating system refuses (permissions, invalid names, a full
  disk): the source catches these failures, so they are part of the model.
\<close>

record cache_file =
  content :: "json option"
  mtime :: real

datatype io_op = OpenRead | OpenWrite | Unlink

record fsys =
  files :: "(string \<times> cache_file) list"
  denied :: "io_op \<Rightarrow> string \<Rightarrow> bool"

definition os_error :: "string \<Rightarrow> string \<Rightarrow> exn" where
  "os_error cls path = PyException cls path"

text \<open>\<^verbatim>\<open>cache_path.exists()\<close>\<close>

definition exists_path :: "string \<Rightarrow> fsys \<Rightarrow> bool" where
  "exists_path path fs \<longleftrightarrow> map_of (files fs) path \<noteq> None"

text \<open>\<^verbatim>\<open>open(cache_path)\<close> followed by reading the text.\<close>

definition open_read :: "string \<Rightarrow> fsys \<Rightarrow> exn + json option" where
  "open_read path fs =
     (case map_of (files fs) path of
        None \<Rightarrow> Inl (os_error ''FileNotFoundError'' path)
      | Some f \<Rightarrow>
          if denied fs OpenRead path then Inl (os_error ''PermissionError'' path)
          else Inr (content f))"

text \<open>\<^verbatim>\<open>json.load(f)\<close>\<close>

definition json_load :: "json option \<Rightarrow> exn + json" where
  "json_load raw = (case raw of
       None \<Rightarrow> Inl (PyException ''JSONDecodeError'' ''invalid'')
     | Some doc \<Rightarrow> Inr doc)"

text \<open>\<^verbatim>\<open>open(cache_path, "w")\<close> and \<^verbatim>\<open>json.dump(doc, f)\<close> at time \<open>now\<close>.\<close>

definition write_json :: "string \<Rightarrow> json \<Rightarrow> real \<Rightarrow> fsys \<Rightarrow> exn + fsys" where
  "write_json path doc now fs =
     (if denied fs OpenWrite path then Inl (os_error ''OSError'' path)
      else Inr (fs\<lparr>files := AList.update path \<lparr>content = Some doc, mtime = now\<rparr> (files fs)\<rparr>))"

text \<open>\<^verbatim>\<open>path.unlink()\<close>\<close>

definition unlink :: "string \<Rightarrow> fsys \<Rightarrow> exn + fsys" where
  "unlink path fs =
     (case map_of (files fs) path of
        None \<Rightarrow> Inl (os_error ''FileNotFoundError'' path)
      | Some f \<Rightarrow>
          if denied fs Unlink path then Inl (os_error ''PermissionError'' path)
          else Inr (fs\<lparr>files := AList.delete path (files fs)\<rparr>))"

text \<open>\<^verbatim>\<open>entry[key]\<close> on what \<^verbatim>\<open>json.load\<close> returned: only a dictionary can be
  subscripted by a string.\<close>

fun getitem :: "json \<Rightarrow> string \<Rightarrow> exn + json" where
  "getitem (JObject kvs) k =
     (case map_of kvs k of None \<Rightarrow> Inl (PyException ''KeyError'' k) | Some v \<Rightarrow> Inr v)"
| "getitem j k = Inl (PyException ''TypeError'' k)"

text \<open>\<^verbatim>\<open>time.time() > x\<close>: a float compares with a number or a boolean only.\<close>

fun float_gt :: "real \<Rightarrow> json \<Rightarrow> exn + bool" where
  "float_gt now (JNum r) = Inr (r < now)"
| "float_gt now (JBool b) = Inr ((if b then 1 else 0) < now)"
| "float_gt now j = Inl (PyException ''TypeError'' ''>'')"

subsection \<open>The store\<close>

text \<open>The attributes of \<^verbatim>\<open>Cache\<close> that \<^verbatim>\<open>set\<close> and \<^verbatim>\<open>get\<close> read. File names are
  relative to \<^verbatim>\<open>cache_dir\<close>; the lock and the cleanup thread play no part in a
  sequential run.\<close>

record cache =
  ttl :: int
  max_size :: int

text \<open>\<^verbatim>\<open>_get_cache_path\<close>\<close>

definition get_cache_path :: "string \<Rightarrow> string" where
  "get_cache_path key = key @ ''.json''"

definition ends_with :: "string \<Rightarrow> string \<Rightarrow> bool" where
  "ends_with suf s \<longleftrightarrow> length suf \<le> length s \<and> drop (length s - length suf) s = suf"

text \<open>\<^verbatim>\<open>self.cache_dir.glob("*.json")\<close>\<close>

definition glob_json :: "fsys \<Rightarrow> (string \<times> cache_file) list" where
  "glob_json fs = filter (\<lambda>nf. ends_with ''.json'' (fst nf)) (files fs)"

text \<open>\<^verbatim>\<open>_get_cache_files\<close>: the paths, sorted by modification time (a stable sort).\<close>

definition get_cache_files :: "fsys \<Rightarrow> string list" where
  "get_cache_files fs = map fst (sort_key (\<lambda>nf. mtime (snd nf)) (glob_json fs))"

text \<open>
  The loop \<^verbatim>\<open>while len(cache_files) >= self.max_size\<close> of \<^verbatim>\<open>set\<close>: the first path
  is popped and unlinked, and a failure to unlink is logged and skipped. The loop is entered
  only with \<open>0 < max_size\<close>, so the list is not empty when its body runs.
\<close>

fun evict :: "int \<Rightarrow> string list \<Rightarrow> fsys \<Rightarrow> fsys" where
  "evict ms [] fs = fs"
| "evict ms (oldest_file # cache_files) fs =
     (if ms \<le> int (length (oldest_file # cache_files))
      then evict ms cache_files (case unlink oldest_file fs of Inl e \<Rightarrow> fs | Inr fs' \<Rightarrow> fs')
      else fs)"

text \<open>\<^verbatim>\<open>Cache.set(key, value)\<close> at time \<open>now\<close>. A failure to write is logged and the
  call returns normally.\<close>

definition cache_set :: "cache \<Rightarrow> string \<Rightarrow> json \<Rightarrow> real \<Rightarrow> fsys \<Rightarrow> fsys" where
  "cache_set c key val now fs =
     (let fs1 = (if 0 < max_size c then evict (max_size c) (get_cache_files fs) fs else fs);
          cache_path = get_cache_path key
      in case write_json cache_path
                (JObject [(''data'', val), (''expires_at'', JNum (now + real_of_int (ttl c)))]) now fs1 of
           Inl e \<Rightarrow> fs1
         | Inr fs2 \<Rightarrow> fs2)"

text \<open>A sequence of \<^verbatim>\<open>set\<close> calls, each with its key, its payload and the time of the call.\<close>

fun set_all :: "cache \<Rightarrow> (string \<times> json \<times> real) list \<Rightarrow> fsys \<Rightarrow> fsys" where
  "set_all c [] fs = fs"
| "set_all c ((key, val, now) # rest) fs = set_all c rest (cache_set c key val now fs)"

text \<open>The file that \<^verbatim>\<open>set(key, value)\<close> at time \<open>now\<close> writes, with its name.\<close>

definition written :: "cache \<Rightarrow> string \<times> json \<times> real \<Rightarrow> string \<times> cache_file" where
  "written c call = (case call of (key, val, now) \<Rightarrow>
     (get_cache_path key,
      \<lparr>content = Some (JObject [(''data'', val), (''expires_at'', JNum (now + real_of_int (ttl c)))]),
       mtime = now\<rparr>))"

text \<open>The \<^verbatim>\<open>try\<close> block of \<^verbatim>\<open>Cache.get\<close>.\<close>

definition get_try :: "string \<Rightarrow> real \<Rightarrow> fsys \<Rightarrow> (exn + json) \<times> fsys" where
  "get_try cache_path now fs =
     (case open_read cache_path fs of
        Inl e \<Rightarrow> (Inl e, fs)
      | Inr raw \<Rightarrow>
         (case json_load raw of
            Inl e \<Rightarrow> (Inl e, fs)
          | Inr entry \<Rightarrow>
             (case getitem entry ''expires_at'' of
                Inl e \<Rightarrow> (Inl e, fs)
              | Inr x \<Rightarrow>
                 (case float_gt now x of
                    Inl e \<Rightarrow> (Inl e, fs)
                  | Inr expired \<Rightarrow>
                      if expired
                      then (case unlink cache_path fs of
                              Inl e \<Rightarrow> (Inl e, fs)
                            | Inr fs' \<Rightarrow> (Inr JNull, fs'))
                      else (case getitem entry ''data'' of
                              Inl e \<Rightarrow> (Inl e, fs)
                            | Inr d \<Rightarrow> (Inr d, fs))))))"

text \<open>
  \<^verbatim>\<open>Cache.get(key)\<close> at time \<open>now\<close>. It takes no lock, so other threads may change the
  directory between the existence check and the read: \<open>env\<close> is what they do in between.
  \<^verbatim>\<open>except Exception\<close> turns every exception of the \<^verbatim>\<open>try\<close> block into \<^verbatim>\<open>None\<close>.
\<close>

definition cache_get_env :: "(fsys \<Rightarrow> fsys) \<Rightarrow> cache \<Rightarrow> string \<Rightarrow> real \<Rightarrow> fsys \<Rightarrow> (exn + json) \<times> fsys" where
  "cache_get_env env c key now fs =
     (let cache_path = get_cache_path key in
      if \<not> exists_path cache_path fs then (Inr JNull, fs)
      else (case get_try cache_path now (env fs) of
              (Inl e, fs') \<Rightarrow> (Inr JNull, fs')
            | (Inr v, fs') \<Rightarrow> (Inr v, fs')))"

text \<open>\<^verbatim>\<open>Cache.get\<close> with no other thread at work.\<close>

definition cache_get :: "cache \<Rightarrow> string \<Rightarrow> real \<Rightarrow> fsys \<Rightarrow> (exn + json) \<times> fsys" where
  "cache_get c key now fs = cache_get_env (\<lambda>fs. fs) c key now fs"

section \<open>The memoizing adapter: \<^verbatim>\<open>cached\<close>\<close>

text \<open>Arguments of a memoized call, with \<^verbatim>\<open>str(arg)\<close>.\<close>

datatype pyval = PNone | PBool bool | PInt int | PStr string

fun py_str :: "pyval \<Rightarrow> string" where
  "py_str PNone = ''None''"
| "py_str (PBool b) = (if b then ''True'' else ''False'')"
| "py_str (PInt i) = str_int i"
| "py_str (PStr s) = s"

text \<open>\<^verbatim>\<open>sep.join(parts)\<close>\<close>

fun join :: "string \<Rightarrow> string list \<Rightarrow> string" where
  "join sep [] = []"
| "join sep [x] = x"
| "join sep (x # y # ys) = x @ sep @ join sep (y # ys)"

text \<open>
  The key of \<^verbatim>\<open>wrapper\<close>: the function's name, \<^verbatim>\<open>str\<close> of each positional argument,
  and \<^verbatim>\<open>f"{k}:{v}"\<close> for the keyword arguments in the order of \<^verbatim>\<open>sorted(kwargs.items())\<close>,
  joined by \<^verbatim>\<open>"_"\<close>. Keyword names are distinct, so the items are ordered by name.
\<close>

definition cache_key :: "string \<Rightarrow> pyval list \<Rightarrow> (string \<times> pyval) list \<Rightarrow> string" where
  "cache_key fname args kwargs =
     join ''_'' ([fname] @ map py_str args @
                 map (\<lambda>kv. fst kv @ '':'' @ py_str (snd kv)) (sort_key fst kwargs))"


section \<open>Properties of the retry executor\<close>

lemma wf_policy_sleep_ok:
  assumes "wf_policy p"
  shows "py_sleep (min (base_delay p * exponential_base p ^ n) (max_delay p)) = Inr ()"
proof -
  have "0 \<le> base_delay p * exponential_base p ^ n"
    using assms by (simp add: wf_policy_def)
  moreover have "0 \<le> max_delay p"
    using assms by (simp add: wf_policy_def)
  ultimately have "\<not> min (base_delay p * exponential_base p ^ n) (max_delay p) < 0"
    by (simp add: min_def)
  then show ?thesis
    by (simp add: py_sleep_def)
qed

lemma calls_append [simp]: "calls (xs @ ys) = calls xs @ calls ys"
  by (induction xs rule: calls.induct) auto

lemma sleeps_append [simp]: "sleeps (xs @ ys) = sleeps xs @ sleeps ys"
  by (induction xs rule: sleeps.induct) auto

lemma py_sleep_wait [simp]: "py_sleep (max x 0) = Inr ()"
  by (simp add: py_sleep_def)

lemma fst_prepend [simp]: "fst (prepend evs r) = fst r"
  by (simp add: prepend_def)

lemma snd_prepend [simp]: "snd (prepend evs r) = evs @ snd r"
  by (simp add: prepend_def)

lemma prepend_Nil [simp]: "prepend [] r = r"
  by (simp add: prepend_def)

lemma prepend_prepend [simp]: "prepend xs (prepend ys r) = prepend (xs @ ys) r"
  by (simp add: prepend_def)

text \<open>The sleep that follows a failure matched by the \<^verbatim>\<open>except\<close> clause in iteration
  \<open>a\<close>, as the handler computes it.\<close>

lemma retry_loop_retry:
  assumes "wf_policy p" "func a = Inl e" "exceptions p e" "int a \<le> max_retries p"
    "rate_limited e \<or> int a < max_retries p"
  shows "retry_loop p name func clock a le0 =
     prepend [Call (Inl e), Sleep (if rate_limited e then max (real_of_int (reset_time e) - clock a) 0
                                   else min (base_delay p * exponential_base p ^ a) (max_delay p))]
       (retry_loop p name func clock (a + 1) (Some e))"
  using assms by (subst retry_loop.simps) (auto simp: Let_def wf_policy_sleep_ok)





lemma retry_loop_reach:
  assumes "wf_policy p" "a \<le> i" "int i \<le> max_retries p"
    "\<forall>k. a \<le> k \<and> k < i \<longrightarrow> fails_retryably p func k"
  shows "\<exists>pre le'. retry_loop p name func clock a le0 = prepend pre (retry_loop p name func clock i le') \<and>
           length pre = 2 * (i - a) \<and> length (sleeps pre) = i - a \<and> calls pre = map func [a ..< i]"
  using assms
proof (induction "i - a" arbitrary: a le0)
  case 0
  then have "a = i" by simp
  then have "retry_loop p name func clock a le0 = prepend [] (retry_loop p name func clock i le0)"
    by simp
  then show ?case using \<open>a = i\<close> by (intro exI[of _ "[]"] exI[of _ le0]) simp
next
  case (Suc n)
  then have lt: "a < i" by simp
  then have lt': "int a < max_retries p" using Suc.prems(3) by linarith
  from Suc.prems(4) lt obtain e where e: "func a = Inl e" "exceptions p e"
    unfolding fails_retryably_def by (metis order_refl)
  define d where "d = (if rate_limited e then max (real_of_int (reset_time e) - clock a) 0
                       else min (base_delay p * exponential_base p ^ a) (max_delay p))"
  have step: "retry_loop p name func clock a le0 =
     prepend [Call (Inl e), Sleep d] (retry_loop p name func clock (a + 1) (Some e))"
    unfolding d_def using Suc.prems(1) e lt' by (intro retry_loop_retry) auto
  have "n = i - (a + 1)" using Suc.hyps(2) by simp
  moreover have "a + 1 \<le> i" using lt by simp
  moreover have "\<forall>k. a + 1 \<le> k \<and> k < i \<longrightarrow> fails_retryably p func k"
    using Suc.prems(4) by simp
  ultimately obtain pre le' where pre:
    "retry_loop p name func clock (a + 1) (Some e) = prepend pre (retry_loop p name func clock i le')"
    "length pre = 2 * (i - (a + 1))" "length (sleeps pre) = i - (a + 1)" "calls pre = map func [a + 1 ..< i]"
    using Suc.hyps(1)[of "a + 1" "Some e"] Suc.prems(1,3) by blast
  have upt: "[a ..< i] = a # [a + 1 ..< i]"
    using lt by (simp add: upt_conv_Cons)
  have "retry_loop p name func clock a le0 =
          prepend ([Call (Inl e), Sleep d] @ pre) (retry_loop p name func clock i le')"
    using step pre(1) by simp
  moreover have "length ([Call (Inl e), Sleep d] @ pre) = 2 * (i - a)"
    using pre(2) lt by simp
  moreover have "length (sleeps ([Call (Inl e), Sleep d] @ pre)) = i - a"
    using pre(3) lt by simp
  moreover have "calls ([Call (Inl e), Sleep d] @ pre) = map func [a ..< i]"
    using pre(4) upt e by simp
  ultimately show ?case by blast
qed






lemma non_retryable_after_retries:
  assumes "int i \<le> max_retries p"
    and "wf_policy p"
    and "\<forall>k. k < i \<longrightarrow> fails_retryably p func k"
    and "func i = Inl e"
    and "\<not> exceptions p e"
  shows "fst (wrapper p name func clock) = Inl e \<and>
         calls (snd (wrapper p name func clock)) = map func [0 ..< i + 1] \<and>
         length (sleeps (snd (wrapper p name func clock))) = i \<and>
         last (snd (wrapper p name func clock)) = Call (Inl e)"
proof -
  have "\<forall>k. 0 \<le> k \<and> k < i \<longrightarrow> fails_retryably p func k"
    using assms(3) by simp
  then obtain pre le' where pre:
    "retry_loop p name func clock 0 None = prepend pre (retry_loop p name func clock i le')"
    "length pre = 2 * (i - 0)" "length (sleeps pre) = i - 0" "calls pre = map func [0 ..< i]"
    using retry_loop_reach[of p 0 i func name clock None] assms(1,2) by auto
  have stop: "retry_loop p name func clock i le' = (Inl e, [Call (Inl e)])"
    using assms(1,4,5) by (subst retry_loop.simps) simp
  have w: "wrapper p name func clock = (Inl e, pre @ [Call (Inl e)])"
    unfolding wrapper_def pre(1) stop by (simp add: prepend_def)
  show ?thesis
    unfolding w using pre(3,4) assms(4) by auto
qed

text \<open>
  Claim C6. When the first call of the wrapped function raises an exception that the
  \<^verbatim>\<open>except\<close> clause does not match, the run consists of that one call: the function is
  called once, nothing sleeps, and the wrapper raises that same exception.
\<close>

theorem non_retryable_propagates:
  assumes "0 \<le> max_retries p"
    and "func 0 = Inl e"
    and "\<not> exceptions p e"
  shows "wrapper p name func clock = (Inl e, [Call (Inl e)]) \<and>
         calls (snd (wrapper p name func clock)) = [Inl e] \<and>
         sleeps (snd (wrapper p name func clock)) = []"
proof -
  have "wrapper p name func clock = (Inl e, [Call (Inl e)])"
    unfolding wrapper_def using assms by (subst retry_loop.simps) simp
  then show ?thesis
    by simp
qed

theorem non_retryable_propagates_witness:
  "wrapper \<lparr>max_retries = 2, base_delay = 1 / 10, max_delay = 60, exponential_base = 2,
            exceptions = (\<lambda>e. case e of PyException c m \<Rightarrow> c = ''TypeError'' | _ \<Rightarrow> False)\<rparr>
      ''test_func'' (\<lambda>k. Inl (PyException ''ValueError'' ''test error'') :: exn + unit) (\<lambda>k. 0)
    = (Inl (PyException ''ValueError'' ''test error''), [Call (Inl (PyException ''ValueError'' ''test error''))])"
  using non_retryable_propagates[of "\<lparr>max_retries = 2, base_delay = 1 / 10, max_delay = 60, exponential_base = 2,
            exceptions = (\<lambda>e. case e of PyException c m \<Rightarrow> c = ''TypeError'' | _ \<Rightarrow> False)\<rparr>"
      "(\<lambda>k. Inl (PyException ''ValueError'' ''test error'') :: exn + unit)" "PyException ''ValueError'' ''test error''"
      "''test_func''" "\<lambda>k. 0"]
  by (simp add: wf_policy_def)

section \<open>Properties of the cache store\<close>

lemma denied_evict [simp]: "denied (evict ms ps fs) = denied fs"
  by (induction ms ps fs rule: evict.induct) (auto simp: unlink_def split: option.splits)

lemma denied_cache_set [simp]: "denied (cache_set c k v now fs) = denied fs"
  by (simp add: cache_set_def write_json_def Let_def)











subsection \<open>Capacity and eviction\<close>

lemma get_cache_path_inj [simp]: "get_cache_path k = get_cache_path k' \<longleftrightarrow> k = k'"
  by (simp add: get_cache_path_def)






lemma length_get_cache_files [simp]: "length (get_cache_files fs) = length (glob_json fs)"
  by (simp add: get_cache_files_def)









lemma denied_set_all [simp]: "denied (set_all c ops fs) = denied fs"
  by (induction c ops fs rule: set_all.induct) auto






lemma ends_with_cache_path [simp]: "ends_with ''.json'' (get_cache_path k)"
  by (simp add: ends_with_def get_cache_path_def)

lemma fst_written [simp]: "fst (written c call) = get_cache_path (fst call)"
  by (simp add: written_def split: prod.splits)

lemma mtime_written [simp]: "mtime (snd (written c call)) = snd (snd call)"
  by (simp add: written_def split: prod.splits)








section \<open>Properties of the memoizing adapter\<close>



lemma cache_get_store:
  "snd (cache_get c key now fs) = fs \<or>
   (snd (cache_get c key now fs) = fs\<lparr>files := AList.delete (get_cache_path key) (files fs)\<rparr> \<and>
    (\<exists>f entry x. map_of (files fs) (get_cache_path key) = Some f \<and> content f = Some entry \<and>
       getitem entry ''expires_at'' = Inr x \<and> float_gt now x = Inr True))"
  by (auto simp: cache_get_def cache_get_env_def exists_path_def get_try_def open_read_def json_load_def
        unlink_def Let_def split: if_splits option.splits sum.splits prod.splits)



lemma cache_get_never_raises: "\<exists>v. fst (cache_get c key now fs) = Inr v"
  by (simp add: cache_get_def cache_get_env_def Let_def split: prod.splits sum.splits)


lemma denied_cache_get [simp]: "denied (snd (cache_get c key now fs)) = denied fs"
  using cache_get_store[of c key now fs] by auto




text \<open>
  Claim C8. The key is a function of the name and the arguments, so equal calls derive equal
  keys. Calls with different arguments can derive the same key: the separator may occur in an
  argument, \<^verbatim>\<open>str\<close> does not tell the integer 1 from the string "1", and a positional
  argument may read like a keyword item.
\<close>

theorem cache_key_collision:
  "[PStr ''a_b''] \<noteq> [PStr ''a'', PStr ''b''] \<and>
   cache_key ''f'' [PStr ''a_b''] [] = ''f_a_b'' \<and>
   cache_key ''f'' [PStr ''a'', PStr ''b''] [] = ''f_a_b'' \<and>
   cache_key ''f'' [PInt 1] [] = cache_key ''f'' [PStr ''1''] [] \<and>
   cache_key ''f'' [PStr ''x:1''] [] = cache_key ''f'' [] [(''x'', PInt 1)]"
  by (simp add: cache_key_def str_int_def digits.simps digit_char_def)






end
